theory Spec2Isabelle
  imports Complex_Main "HOL-Library.Log_Nat" "HOL-Library.AList" "HOL-Library.Code_Target_Nat"
begin

section \<open>JavaScript strings\<close>

text \<open>
  A JavaScript string is a sequence of UTF-16 code units. A code unit is modelled as a
  natural number (every code unit is below 65536; no function below depends on the bound),
  so that the white space above Latin-1 and the \<open>\uXXXX\<close> escapes of JSON are in the model.
  \<open>js\<close> turns an ASCII literal into its code units.
\<close>

type_synonym jsstring = "nat list"

definition js :: "string \<Rightarrow> jsstring" where
  "js s = map of_char s"

text \<open>
  ECMAScript \<open>WhiteSpace\<close> and \<open>LineTerminator\<close> code units: TAB, LF, VT, FF, CR, SP, NBSP,
  U+1680, U+2000..U+200A, LS, PS, U+202F, U+205F, U+3000 and the BOM. Both
  \<open>String.prototype.trim\<close> and the regular-expression class \<open>\s\<close> use this set.
\<close>

definition is_space :: "nat \<Rightarrow> bool" where
  "is_space c \<longleftrightarrow>
     c = 9 \<or> c = 10 \<or> c = 11 \<or> c = 12 \<or> c = 13 \<or> c = 32 \<or> c = 160 \<or> c = 5760 \<or>
     (8192 \<le> c \<and> c \<le> 8202) \<or> c = 8232 \<or> c = 8233 \<or> c = 8239 \<or> c = 8287 \<or>
     c = 12288 \<or> c = 65279"

text \<open>\<open>s.trim()\<close>: the string without its leading and trailing white space.\<close>

definition trim :: "jsstring \<Rightarrow> jsstring" where
  "trim s = rev (dropWhile is_space (rev (dropWhile is_space s)))"

text \<open>
  \<open>s.split(sep)\<close> for a separator of one code unit: the pieces between the separators, in
  order; the empty string gives one empty piece.
\<close>

fun split_on :: "nat \<Rightarrow> jsstring \<Rightarrow> jsstring list" where
  "split_on sep [] = [[]]"
| "split_on sep (c # cs) =
     (if c = sep then [] # split_on sep cs
      else (case split_on sep cs of
              [] \<Rightarrow> [[c]]
            | p # ps \<Rightarrow> (c # p) # ps))"

text \<open>\<open>xs[i]\<close> on a JavaScript array: \<open>undefined\<close> out of range.\<close>

definition index :: "'a list \<Rightarrow> nat \<Rightarrow> 'a option" where
  "index xs i = (if i < length xs then Some (xs ! i) else None)"

text \<open>\<open>t || ""\<close> for \<open>t\<close> a string or \<open>undefined\<close>.\<close>

definition or_empty :: "jsstring option \<Rightarrow> jsstring" where
  "or_empty t = (case t of None \<Rightarrow> [] | Some s \<Rightarrow> s)"

section \<open>JavaScript numbers\<close>

text \<open>
  A Number is an IEEE 754 binary64 value: a finite value (held as the rational it denotes),
  an infinity or NaN. The sign of zero is not modelled, a zero stands for \<open>+0\<close>: only a
  division by zero tells the two zeros apart, and the program divides by 3.
\<close>

datatype number = Finite rat | PosInfinity | NegInfinity | NaN

subsection \<open>Rounding to binary64\<close>

text \<open>
  \<open>to_double x\<close> is the Number nearest to the real \<open>x\<close>, the one with an even significand
  when two are equally near. With \<open>2\<^sup>e \<le> |x| < 2\<^bsup>e+1\<^esup>\<close> (and \<open>e\<close> at least \<open>-1022\<close>, where
  the subnormal values start), the binary64 values around \<open>x\<close> are the multiples of
  \<open>2\<^bsup>e-52\<^esup>\<close>, so \<open>x\<close> is rounded to a multiple \<open>m\<close> of it; a result of magnitude
  \<open>2\<^sup>1\<^sup>0\<^sup>2\<^sup>4\<close> or more is an infinity.
\<close>

definition pow2 :: "int \<Rightarrow> rat" where
  "pow2 e = (if 0 \<le> e then 2 ^ nat e else 1 / 2 ^ nat (- e))"

definition pow10 :: "int \<Rightarrow> rat" where
  "pow10 e = (if 0 \<le> e then 10 ^ nat e else 1 / 10 ^ nat (- e))"

text \<open>The exponent \<open>e\<close> with \<open>2\<^sup>e \<le> x < 2\<^bsup>e+1\<^esup>\<close>, for \<open>x > 0\<close>, from the bit lengths of the
  numerator and the denominator of \<open>x\<close>.\<close>

definition floor_log2 :: "rat \<Rightarrow> int" where
  "floor_log2 x =
     (let (a, b) = quotient_of x;
          e = bitlen a - bitlen b
      in if pow2 e \<le> x then e else e - 1)"

text \<open>The integer nearest to \<open>r\<close>, the even one at a tie.\<close>

definition round_half_even :: "rat \<Rightarrow> int" where
  "round_half_even r =
     (let f = \<lfloor>r\<rfloor>; d = r - of_int f
      in if d < 1 / 2 then f
         else if 1 / 2 < d then f + 1
         else if even f then f else f + 1)"

definition to_double :: "rat \<Rightarrow> number" where
  "to_double x =
     (if x = 0 then Finite 0
      else let e = max (floor_log2 \<bar>x\<bar>) (- 1022);
               m = round_half_even (x / pow2 (e - 52))
           in if 1024 \<le> e \<or> (e = 1023 \<and> 2 ^ 53 \<le> \<bar>m\<bar>)
              then (if 0 < x then PosInfinity else NegInfinity)
              else Finite (of_int m * pow2 (e - 52)))"

subsection \<open>Arithmetic\<close>

text \<open>\<open>Number(v)\<close> for \<open>v\<close> a Number or \<open>undefined\<close>.\<close>

definition Number :: "number option \<Rightarrow> number" where
  "Number v = (case v of None \<Rightarrow> NaN | Some x \<Rightarrow> x)"

text \<open>\<open>x || 0\<close>: the falsy Numbers are zero and NaN.\<close>

definition or_zero :: "number \<Rightarrow> number" where
  "or_zero x = (if x = NaN \<or> x = Finite 0 then Finite 0 else x)"

text \<open>\<open>x + y\<close> and \<open>x / y\<close> on Numbers: the exact result, rounded to binary64.\<close>

fun num_add :: "number \<Rightarrow> number \<Rightarrow> number" where
  "num_add NaN y = NaN"
| "num_add x NaN = NaN"
| "num_add PosInfinity NegInfinity = NaN"
| "num_add NegInfinity PosInfinity = NaN"
| "num_add PosInfinity y = PosInfinity"
| "num_add x PosInfinity = PosInfinity"
| "num_add NegInfinity y = NegInfinity"
| "num_add x NegInfinity = NegInfinity"
| "num_add (Finite a) (Finite b) = to_double (a + b)"

fun num_div :: "number \<Rightarrow> number \<Rightarrow> number" where
  "num_div NaN y = NaN"
| "num_div x NaN = NaN"
| "num_div (Finite a) (Finite b) =
     (if b = 0 then (if a = 0 then NaN else if 0 < a then PosInfinity else NegInfinity)
      else to_double (a / b))"
| "num_div (Finite a) y = Finite 0"
| "num_div PosInfinity (Finite b) = (if 0 \<le> b then PosInfinity else NegInfinity)"
| "num_div NegInfinity (Finite b) = (if 0 \<le> b then NegInfinity else PosInfinity)"
| "num_div x y = NaN"

subsection \<open>Number.prototype.toFixed\<close>

text \<open>The decimal digits of a natural number.\<close>

fun decimal :: "nat \<Rightarrow> jsstring" where
  "decimal n = (if n < 10 then [48 + n] else decimal (n div 10) @ [48 + n mod 10])"

declare decimal.simps [simp del]

text \<open>
  \<open>Number::toString(x)\<close> for a finite \<open>x \<ge> 10\<^sup>2\<^sup>1\<close>: the least number \<open>k\<close> of digits and
  the integer \<open>s\<close> of \<open>k\<close> digits with \<open>s \<times> 10\<^bsup>n-k\<^esup>\<close> rounding to \<open>x\<close> (the \<open>s\<close> nearer
  to \<open>x\<close> when two do), printed in exponent notation. \<open>shortest\<close> tries \<open>k\<close>, \<open>k + 1\<close>, ...;
  17 digits identify every binary64 value.
\<close>

fun shortest :: "nat \<Rightarrow> nat \<Rightarrow> int \<Rightarrow> rat \<Rightarrow> nat \<times> int" where
  "shortest 0 k n x = (k, \<lfloor>x / pow10 (n - int k)\<rfloor>)"
| "shortest (Suc fuel) k n x =
     (let p = pow10 (n - int k);
          lo = \<lfloor>x / p\<rfloor>;
          lo_ok = (to_double (of_int lo * p) = Finite x);
          hi_ok = (to_double (of_int (lo + 1) * p) = Finite x)
      in if lo_ok \<and> hi_ok then
           (if x - of_int lo * p < of_int (lo + 1) * p - x then (k, lo)
            else if of_int (lo + 1) * p - x < x - of_int lo * p then (k, lo + 1)
            else if even lo then (k, lo) else (k, lo + 1))
         else if lo_ok then (k, lo)
         else if hi_ok then (k, lo + 1)
         else shortest fuel (Suc k) n x)"

definition big_to_string :: "rat \<Rightarrow> jsstring" where
  "big_to_string x =
     (let n0 = int (length (decimal (nat \<lfloor>x\<rfloor>)));
          (k, s) = shortest 17 1 n0 x;
          (n, ds) = (if s = 10 ^ k then (n0 + 1, [49]) else (n0, decimal (nat s)))
      in (if length ds = 1 then ds else take 1 ds @ [46] @ drop 1 ds)
         @ [101, 43] @ decimal (nat (n - 1)))"

text \<open>
  \<open>x.toFixed(f)\<close> for \<open>0 \<le> f \<le> 100\<close>: for a finite \<open>x\<close> below \<open>10\<^sup>2\<^sup>1\<close> in magnitude, the
  integer \<open>n\<close> with \<open>n / 10\<^sup>f\<close> nearest to \<open>x\<close> (the larger when two are), written with
  \<open>f\<close> digits after the point.
\<close>

definition toFixed :: "nat \<Rightarrow> number \<Rightarrow> jsstring" where
  "toFixed f x =
     (case x of
        NaN \<Rightarrow> js ''NaN''
      | PosInfinity \<Rightarrow> js ''Infinity''
      | NegInfinity \<Rightarrow> js ''-Infinity''
      | Finite r \<Rightarrow>
          (let s = (if r < 0 then js ''-'' else []);
               a = \<bar>r\<bar>
           in if 10 ^ 21 \<le> a then s @ big_to_string a
              else
                (let n = nat \<lfloor>a * 10 ^ f + 1 / 2\<rfloor>;
                     m = decimal n;
                     z = (if f \<noteq> 0 \<and> length m \<le> f then replicate (f + 1 - length m) 48 @ m else m);
                     k = length z
                 in if f \<noteq> 0 then s @ take (k - f) z @ [46] @ drop (k - f) z
                    else s @ z)))"


section \<open>JSON.parse\<close>

datatype json =
    JNull | JBool bool | JNumber number | JString jsstring
  | JArray "json list" | JObject "(jsstring \<times> json) list"

text \<open>
  \<open>JSON.parse(text)\<close> reads one JSON value, with JSON white space (TAB, LF, CR, SP) around
  it and between its tokens, and throws a \<open>SyntaxError\<close> on anything else. The parser
  below is a recursive descent on the text; each call of \<open>parse_value\<close>,
  \<open>parse_elements\<close> (the elements of an array after \<open>[\<close>) and \<open>parse_members\<close> (the
  members of an object after \<open>{\<close>) spends one unit of fuel, and \<open>JSON_parse\<close> gives it
  more fuel than it can spend (lemma \<open>JSON_parse_fuel\<close>). A parser returns the value and
  the rest of the text. A number is read as the Number nearest to its decimal value
  (\<open>-0\<close> as zero, the sign of zero not being modelled).
\<close>

datatype 'a parsed = Ok 'a jsstring | SyntaxError | OutOfFuel

definition is_json_ws :: "nat \<Rightarrow> bool" where
  "is_json_ws c \<longleftrightarrow> c = 9 \<or> c = 10 \<or> c = 13 \<or> c = 32"

definition skip_ws :: "jsstring \<Rightarrow> jsstring" where
  "skip_ws s = dropWhile is_json_ws s"

definition is_digit :: "nat \<Rightarrow> bool" where
  "is_digit c \<longleftrightarrow> 48 \<le> c \<and> c \<le> 57"

definition hex_val :: "nat \<Rightarrow> nat option" where
  "hex_val c =
     (if 48 \<le> c \<and> c \<le> 57 then Some (c - 48)
      else if 97 \<le> c \<and> c \<le> 102 then Some (c - 87)
      else if 65 \<le> c \<and> c \<le> 70 then Some (c - 55)
      else None)"

definition unescape :: "nat \<Rightarrow> nat option" where
  "unescape e =
     (if e = 34 then Some 34 else if e = 92 then Some 92 else if e = 47 then Some 47
      else if e = 98 then Some 8 else if e = 102 then Some 12 else if e = 110 then Some 10
      else if e = 114 then Some 13 else if e = 116 then Some 9 else None)"

definition hex4 :: "nat \<Rightarrow> nat \<Rightarrow> nat \<Rightarrow> nat \<Rightarrow> nat option" where
  "hex4 a b c d =
     (case (hex_val a, hex_val b, hex_val c, hex_val d) of
        (Some x, Some y, Some z, Some w) \<Rightarrow> Some (((x * 16 + y) * 16 + z) * 16 + w)
      | _ \<Rightarrow> None)"

text \<open>
  The characters of a string after its opening quote, up to the closing quote: any code
  unit from U+0020 on, or an escape: a backslash and one of \<open>"\<close>, a backslash, \<open>/\<close>, \<open>b\<close>,
  \<open>f\<close>, \<open>n\<close>, \<open>r\<close>, \<open>t\<close>, or \<open>u\<close> with four hexadecimal digits after it.
\<close>

fun string_chars :: "jsstring \<Rightarrow> (jsstring \<times> jsstring) option" where
  "string_chars [] = None"
| "string_chars (c # cs) =
     (if c = 34 then Some ([], cs)
      else if c = 92 then
        (case cs of
           [] \<Rightarrow> None
         | e # es \<Rightarrow>
             (if e = 117 then
                (case es of
                   h1 # h2 # h3 # h4 # rest \<Rightarrow>
                     (case hex4 h1 h2 h3 h4 of
                        None \<Rightarrow> None
                      | Some u \<Rightarrow> map_option (\<lambda>(s, r). (u # s, r)) (string_chars rest))
                 | _ \<Rightarrow> None)
              else
                (case unescape e of
                   None \<Rightarrow> None
                 | Some u \<Rightarrow> map_option (\<lambda>(s, r). (u # s, r)) (string_chars es))))
      else if c < 32 then None
      else map_option (\<lambda>(s, r). (c # s, r)) (string_chars cs))"

definition digits_value :: "jsstring \<Rightarrow> int" where
  "digits_value ds = foldl (\<lambda>v d. 10 * v + (int d - 48)) 0 ds"

text \<open>
  A JSON number: an optional minus sign, the integer part (\<open>0\<close>, or digits that do not start
  with \<open>0\<close>), an optional fraction (a point and at least one digit) and an optional
  exponent (\<open>e\<close> or \<open>E\<close>, an optional sign and at least one digit). Its value is the decimal
  it denotes.
\<close>

definition minus_sign :: "jsstring \<Rightarrow> bool \<times> jsstring" where
  "minus_sign s = (case s of [] \<Rightarrow> (False, s) | c # r \<Rightarrow> if c = 45 then (True, r) else (False, s))"

definition int_part :: "jsstring \<Rightarrow> jsstring" where
  "int_part s = (case s of [] \<Rightarrow> [] | d # r \<Rightarrow> if d = 48 then [d] else takeWhile is_digit s)"

definition frac_part :: "jsstring \<Rightarrow> (jsstring \<times> jsstring) option" where
  "frac_part s =
     (case s of
        [] \<Rightarrow> Some ([], s)
      | c # r \<Rightarrow>
          if c = 46 then
            (if takeWhile is_digit r = [] then None
             else Some (takeWhile is_digit r, dropWhile is_digit r))
          else Some ([], s))"

definition exp_sign :: "jsstring \<Rightarrow> bool \<times> jsstring" where
  "exp_sign s =
     (case s of
        [] \<Rightarrow> (False, s)
      | g # r \<Rightarrow> if g = 45 then (True, r) else if g = 43 then (False, r) else (False, s))"

definition exp_part :: "jsstring \<Rightarrow> (int \<times> jsstring) option" where
  "exp_part s =
     (case s of
        [] \<Rightarrow> Some (0, s)
      | c # r \<Rightarrow>
          if c = 101 \<or> c = 69 then
            (let (eneg, r1) = exp_sign r; ed = takeWhile is_digit r1
             in if ed = [] then None
                else Some (if eneg then - digits_value ed else digits_value ed,
                           dropWhile is_digit r1))
          else Some (0, s))"

definition number_token :: "jsstring \<Rightarrow> (rat \<times> jsstring) option" where
  "number_token s =
     (let (neg, s1) = minus_sign s; ip = int_part s1
      in if ip = [] then None
         else
           (case frac_part (drop (length ip) s1) of
              None \<Rightarrow> None
            | Some (fp, s3) \<Rightarrow>
                (case exp_part s3 of
                   None \<Rightarrow> None
                 | Some (ex, s4) \<Rightarrow>
                     (let v = (of_int (digits_value ip) + of_int (digits_value fp) / 10 ^ length fp)
                              * pow10 ex
                      in Some (if neg then - v else v, s4)))))"

text \<open>
  The members of an object are held in the order JavaScript lists its own properties:
  the keys that are array indices (the decimal numeral, without a leading zero, of an
  integer up to \<open>2\<^sup>3\<^sup>2 - 2\<close>) first, in ascending order, then the other keys in the order
  they were added. \<open>set_member\<close> defines one member: a key that is already there keeps its
  place and takes the new value.
\<close>

definition array_index :: "jsstring \<Rightarrow> int option" where
  "array_index k =
     (if k \<noteq> [] \<and> list_all is_digit k \<and> (k = [48] \<or> hd k \<noteq> 48)
         \<and> digits_value k \<le> 4294967294
      then Some (digits_value k) else None)"

fun insert_index :: "int \<Rightarrow> jsstring \<Rightarrow> 'v \<Rightarrow> (jsstring \<times> 'v) list \<Rightarrow> (jsstring \<times> 'v) list" where
  "insert_index i k v [] = [(k, v)]"
| "insert_index i k v (p # ps) =
     (case array_index (fst p) of
        None \<Rightarrow> (k, v) # p # ps
      | Some j \<Rightarrow> if j < i then p # insert_index i k v ps else (k, v) # p # ps)"

definition set_member :: "jsstring \<Rightarrow> 'v \<Rightarrow> (jsstring \<times> 'v) list \<Rightarrow> (jsstring \<times> 'v) list" where
  "set_member k v ms =
     (if k \<in> set (map fst ms) then AList.update k v ms
      else (case array_index k of
              None \<Rightarrow> ms @ [(k, v)]
            | Some i \<Rightarrow> insert_index i k v ms))"

definition literal :: "jsstring \<Rightarrow> json \<Rightarrow> jsstring \<Rightarrow> json parsed" where
  "literal word v s = (if take (length word) s = word then Ok v (drop (length word) s) else SyntaxError)"

fun parse_value :: "nat \<Rightarrow> jsstring \<Rightarrow> json parsed"
  and parse_elements :: "nat \<Rightarrow> json list \<Rightarrow> jsstring \<Rightarrow> json parsed"
  and parse_members :: "nat \<Rightarrow> (jsstring \<times> json) list \<Rightarrow> jsstring \<Rightarrow> json parsed"
where
  "parse_value 0 s = OutOfFuel"
| "parse_value (Suc n) s =
     (case skip_ws s of
        [] \<Rightarrow> SyntaxError
      | c # cs \<Rightarrow>
          if c = 123 then
            (case skip_ws cs of
               [] \<Rightarrow> SyntaxError
             | d # ds \<Rightarrow> if d = 125 then Ok (JObject []) ds else parse_members n [] cs)
          else if c = 91 then
            (case skip_ws cs of
               [] \<Rightarrow> SyntaxError
             | d # ds \<Rightarrow> if d = 93 then Ok (JArray []) ds else parse_elements n [] cs)
          else if c = 34 then
            (case string_chars cs of
               None \<Rightarrow> SyntaxError
             | Some (str, r) \<Rightarrow> Ok (JString str) r)
          else if c = 116 then literal (js ''true'') (JBool True) (c # cs)
          else if c = 102 then literal (js ''false'') (JBool False) (c # cs)
          else if c = 110 then literal (js ''null'') JNull (c # cs)
          else
            (case number_token (c # cs) of
               None \<Rightarrow> SyntaxError
             | Some (x, r) \<Rightarrow> Ok (JNumber (to_double x)) r))"
| "parse_elements 0 acc s = OutOfFuel"
| "parse_elements (Suc n) acc s =
     (case parse_value n s of
        Ok v r \<Rightarrow>
          (case skip_ws r of
             [] \<Rightarrow> SyntaxError
           | d # ds \<Rightarrow>
               if d = 44 then parse_elements n (acc @ [v]) ds
               else if d = 93 then Ok (JArray (acc @ [v])) ds
               else SyntaxError)
      | SyntaxError \<Rightarrow> SyntaxError
      | OutOfFuel \<Rightarrow> OutOfFuel)"
| "parse_members 0 acc s = OutOfFuel"
| "parse_members (Suc n) acc s =
     (case skip_ws s of
        [] \<Rightarrow> SyntaxError
      | q # cs \<Rightarrow>
          if q \<noteq> 34 then SyntaxError
          else
            (case string_chars cs of
               None \<Rightarrow> SyntaxError
             | Some (k, r) \<Rightarrow>
                 (case skip_ws r of
                    [] \<Rightarrow> SyntaxError
                  | colon # r1 \<Rightarrow>
                      if colon \<noteq> 58 then SyntaxError
                      else
                        (case parse_value n r1 of
                           Ok v r2 \<Rightarrow>
                             (case skip_ws r2 of
                                [] \<Rightarrow> SyntaxError
                              | d # ds \<Rightarrow>
                                  if d = 44 then parse_members n (set_member k v acc) ds
                                  else if d = 125 then Ok (JObject (set_member k v acc)) ds
                                  else SyntaxError)
                         | SyntaxError \<Rightarrow> SyntaxError
                         | OutOfFuel \<Rightarrow> OutOfFuel))))"

datatype syntax_error = JSONSyntaxError

definition JSON_parse :: "jsstring \<Rightarrow> syntax_error + json" where
  "JSON_parse text =
     (case parse_value (2 * length text + 1) text of
        Ok v r \<Rightarrow> if skip_ws r = [] then Inr v else Inl JSONSyntaxError
      | SyntaxError \<Rightarrow> Inl JSONSyntaxError
      | OutOfFuel \<Rightarrow> Inl JSONSyntaxError)"

section \<open>The AI service module\<close>

subsection \<open>The environment\<close>

text \<open>
  What the module reads and writes beyond its arguments: the process environment, the
  SDK's client constructor, the remote model behind \<open>ai.models.generateContent\<close>, the
  requests sent over the network so far and the console.
\<close>

datatype process_env =
    NoProcess               \<comment> \<open>\<open>typeof process === 'undefined'\<close> or \<open>process.env\<close> falsy\<close>
  | EnvThrows               \<comment> \<open>reading the environment throws\<close>
  | Env "jsstring option"   \<comment> \<open>\<open>process.env.API_KEY\<close>, \<open>None\<close> when undefined\<close>

datatype client = GoogleGenAI jsstring

datatype schema =
    TString | TNumber | TArray schema | TObject "(jsstring \<times> schema) list"

record gen_config =
  responseMimeType :: jsstring
  responseSchema :: schema

datatype part = InlineData jsstring "jsstring option" | Text jsstring

datatype contents = Prompt jsstring | Parts "part list"

record request =
  model :: jsstring
  contents :: contents
  config :: "gen_config option"

datatype response =
    Rejected                    \<comment> \<open>the call throws (transport or provider error)\<close>
  | Resolved "jsstring option"  \<comment> \<open>\<open>response.text\<close>, \<open>None\<close> when undefined\<close>

record world =
  process :: process_env
  sdk_throws :: bool
  provider :: "client \<Rightarrow> request \<Rightarrow> response"
  network :: "request list"
  console :: "jsstring list"

definition console_log :: "jsstring \<Rightarrow> world \<Rightarrow> world" where
  "console_log msg w = w\<lparr>console := console w @ [msg]\<rparr>"

text \<open>An uploaded file: its MIME type and what a \<open>FileReader\<close> makes of it.\<close>

record image_file =
  file_type :: jsstring
  data_url :: "jsstring option"   \<comment> \<open>\<open>reader.result\<close>; \<open>None\<close> when reading fails\<close>

datatype error =
    Error jsstring   \<comment> \<open>\<open>new Error(message)\<close>\<close>
  | ReadFailed       \<comment> \<open>the event \<open>reader.onerror\<close> rejects with\<close>

subsection \<open>getAIClient\<close>

definition getAIClient :: "world \<Rightarrow> client option \<times> world" where
  "getAIClient w =
     (let (apiKey, w1) =
            (case process w of
               NoProcess \<Rightarrow> ([], w)
             | EnvThrows \<Rightarrow> ([], console_log (js ''Environment variable access failed.'') w)
             | Env k \<Rightarrow> (or_empty k, w))
      in if apiKey = [] then
           (None, console_log (js ''Gemini API Key is missing. Please check your environment variables.'') w1)
         else if sdk_throws w1 then
           (None, console_log (js ''Failed to initialize GoogleGenAI:'') w1)
         else (Some (GoogleGenAI apiKey), w1))"

subsection \<open>fileToGenerativePart\<close>

definition fileToGenerativePart :: "image_file \<Rightarrow> error + jsstring option" where
  "fileToGenerativePart f =
     (case data_url f of
        None \<Rightarrow> Inl ReadFailed
      | Some result \<Rightarrow> Inr (index (split_on 44 result) 1))"

subsection \<open>The remote call\<close>

text \<open>\<open>ai.models.generateContent(request)\<close>: the one place that performs network I/O.\<close>

definition generateContent :: "client \<Rightarrow> request \<Rightarrow> world \<Rightarrow> response \<times> world" where
  "generateContent ai req w = (provider w ai req, w\<lparr>network := network w @ [req]\<rparr>)"

subsection \<open>generateSessionContent\<close>

datatype content_type = Description | Quiz

definition session_prompt :: "jsstring \<Rightarrow> content_type \<Rightarrow> jsstring" where
  "session_prompt topic ty =
     (case ty of
        Description \<Rightarrow>
          js ''Create a short, engaging description for a physical education session about \"''
          @ topic
          @ js ''\". Include 3 key learning objectives. Keep it under 150 words.''
      | Quiz \<Rightarrow>
          js ''Create 3 multiple choice exam questions for a PE class session about \"''
          @ topic
          @ js ''\". Include the correct answer. Format as simple text.'')"

definition generateSessionContent :: "jsstring \<Rightarrow> content_type \<Rightarrow> world \<Rightarrow> jsstring \<times> world" where
  "generateSessionContent topic ty w =
     (case getAIClient w of
        (None, w1) \<Rightarrow> (js ''AI Service Unavailable (Missing or Invalid API Key)'', w1)
      | (Some ai, w1) \<Rightarrow>
          (case generateContent ai
                  \<lparr>model = js ''gemini-2.5-flash'',
                   contents = Prompt (session_prompt topic ty),
                   config = None\<rparr> w1 of
             (Resolved t, w2) \<Rightarrow>
               (if or_empty t = [] then js ''No content generated.'' else or_empty t, w2)
           | (Rejected, w2) \<Rightarrow>
               (js ''Failed to generate content. Please check your API key settings.'',
                console_log (js ''Gemini API Error:'') w2)))"

subsection \<open>extractStudentNamesFromImage\<close>

definition names_prompt :: jsstring where
  "names_prompt = js ''Extract the list of student names from this image. Return ONLY the names, one per line. Do not include numbers, grades, dates, or headers. Just the First and Last names.''"

text \<open>
  The expression the function returns:
  \<open>text.split('\n').map(name => name.trim()).filter(name => name.length > 0)\<close>.
\<close>

definition names_of_text :: "jsstring \<Rightarrow> jsstring list" where
  "names_of_text text = filter (\<lambda>name. length name > 0) (map trim (split_on 10 text))"

definition image_request :: "image_file \<Rightarrow> jsstring option \<Rightarrow> jsstring \<Rightarrow> gen_config option \<Rightarrow> request" where
  "image_request f base64Data prompt cfg =
     \<lparr>model = js ''gemini-2.5-flash'',
      contents = Parts [InlineData (file_type f) base64Data, Text prompt],
      config = cfg\<rparr>"

definition extractStudentNamesFromImage :: "image_file \<Rightarrow> world \<Rightarrow> (error + jsstring list) \<times> world" where
  "extractStudentNamesFromImage imageFile w =
     (case getAIClient w of
        (None, w1) \<Rightarrow> (Inl (Error (js ''AI Service Unavailable. Check API Key.'')), w1)
      | (Some ai, w1) \<Rightarrow>
          (case fileToGenerativePart imageFile of
             Inl e \<Rightarrow> (Inl e, w1)
           | Inr base64Data \<Rightarrow>
               (case generateContent ai (image_request imageFile base64Data names_prompt None) w1 of
                  (Resolved t, w2) \<Rightarrow> (Inr (names_of_text (or_empty t)), w2)
                | (Rejected, w2) \<Rightarrow>
                    (Inl (Error (js ''Failed to extract names from image. Please check your API key.'')),
                     console_log (js ''Gemini Vision Error:'') w2))))"

subsection \<open>extractGradesFromImage\<close>

definition grades_prompt :: jsstring where
  "grades_prompt =
     js ''\<newline>    Analyze this image of a grade sheet. \<newline>    Extract the student names and their scores for Term 1, Term 2, and Term 3.\<newline>    If a note is missing, use 0.\<newline>    Extract as accurately as possible.\<newline>  ''"

definition grades_config :: gen_config where
  "grades_config =
     \<lparr>responseMimeType = js ''application/json'',
      responseSchema =
        TArray (TObject [(js ''name'', TString), (js ''note1'', TNumber),
                         (js ''note2'', TNumber), (js ''note3'', TNumber)])\<rparr>"

text \<open>The three backticks of a markdown code fence.\<close>

definition fence :: jsstring where
  "fence = [96, 96, 96]"

text \<open>
  \<open>text.replace(/^```json\s*/, '')\<close>: when the text starts with the fence and \<open>json\<close>,
  they go, with all the white space that follows them.
\<close>

definition replace_leading_fence :: "jsstring \<Rightarrow> jsstring" where
  "replace_leading_fence text =
     (if take 7 text = fence @ js ''json'' then dropWhile is_space (drop 7 text) else text)"

text \<open>
  \<open>text.replace(/\s*```$/, '')\<close>: the leftmost position from which white space and then
  the fence run to the end of the text; the text is cut there. No position matches when
  the text does not end with the fence.
\<close>

fun replace_trailing_fence :: "jsstring \<Rightarrow> jsstring" where
  "replace_trailing_fence [] = []"
| "replace_trailing_fence (c # cs) =
     (if dropWhile is_space (c # cs) = fence then []
      else c # replace_trailing_fence cs)"

definition extractGradesFromImage :: "image_file \<Rightarrow> world \<Rightarrow> (error + json) \<times> world" where
  "extractGradesFromImage imageFile w =
     (case getAIClient w of
        (None, w1) \<Rightarrow> (Inl (Error (js ''AI Service Unavailable'')), w1)
      | (Some ai, w1) \<Rightarrow>
          (case fileToGenerativePart imageFile of
             Inl e \<Rightarrow> (Inl e, w1)
           | Inr base64Data \<Rightarrow>
               (case generateContent ai
                       (image_request imageFile base64Data grades_prompt (Some grades_config)) w1 of
                  (Resolved t, w2) \<Rightarrow>
                    (if or_empty t = [] then (Inr (JArray []), w2)
                     else
                       (case JSON_parse (replace_trailing_fence (replace_leading_fence (or_empty t))) of
                          Inr v \<Rightarrow> (Inr v, w2)
                        | Inl e \<Rightarrow>
                            (Inl (Error (js ''Failed to extract grades from image.'')),
                             console_log (js ''Gemini Grade Extraction Error:'') w2)))
                | (Rejected, w2) \<Rightarrow>
                    (Inl (Error (js ''Failed to extract grades from image.'')),
                     console_log (js ''Gemini Grade Extraction Error:'') w2))))"

section \<open>The student profile page\<close>

subsection \<open>Data and collaborators\<close>

text \<open>
  Modelled from the spec: the types \<open>Student\<close> and \<open>ClassGroup\<close> of \<open>../types\<close>, which is not
  among the sources. A student has an identifier, a name, an optional class reference and
  three scores, each a Number that may be absent; a class group has an identifier and a
  display name.
\<close>

record Student =
  student_id :: jsstring
  student_name :: jsstring
  classId :: "jsstring option"
  note1 :: "number option"
  note2 :: "number option"
  note3 :: "number option"

record ClassGroup =
  class_id :: jsstring
  class_name :: jsstring

text \<open>
  What an awaited promise settles to: it is fulfilled with a value, or it is rejected and
  the \<open>await\<close> throws.
\<close>

datatype 'a settled = Fulfils 'a | Rejects

text \<open>
  Modelled from the spec: the functions \<open>getStudent\<close>, \<open>getClass\<close> and \<open>saveStudent\<close> of
  \<open>../services/store\<close>, which is not among the sources. Each is asynchronous and gives a
  record or null: null from a getter means not found, null from \<open>saveStudent\<close> means the
  save failed. As any promise, the one they return may also be rejected.
\<close>

record store =
  getStudent :: "jsstring \<Rightarrow> Student option settled"
  getClass :: "jsstring \<Rightarrow> ClassGroup option settled"
  saveStudent :: "Student \<Rightarrow> Student option settled"

subsection \<open>Component state\<close>

text \<open>
  The four \<open>useState\<close> cells of the component and the messages shown with \<open>alert\<close>.
\<close>

record profile =
  student :: "Student option"
  classGroup :: "ClassGroup option"
  isLoading :: bool
  isSaving :: bool
  alerts :: "jsstring list"

definition initial_profile :: profile where
  "initial_profile =
     \<lparr>student = None, classGroup = None, isLoading = True, isSaving = False, alerts = []\<rparr>"

text \<open>
  How a call of one of the two asynchronous handlers ends: it returns, or an \<open>await\<close> in
  it throws. Neither handler has a \<open>try\<close>, and nothing awaits or catches the promise of
  the handler: the state is left as it was when the \<open>await\<close> threw.
\<close>

datatype completion = Returned | Threw

subsection \<open>fetchData\<close>

definition fetchData :: "store \<Rightarrow> jsstring option \<Rightarrow> profile \<Rightarrow> completion \<times> profile" where
  "fetchData db ident st =
     (if or_empty ident = [] then (Returned, st)
      else
        (let st1 = st\<lparr>isLoading := True\<rparr>
         in case getStudent db (or_empty ident) of
              Rejects \<Rightarrow> (Threw, st1)
            | Fulfils studentData \<Rightarrow>
                (let st2 = st1\<lparr>student := studentData\<rparr>
                 in case studentData of
                      None \<Rightarrow> (Returned, st2\<lparr>isLoading := False\<rparr>)
                    | Some sd \<Rightarrow>
                        if or_empty (classId sd) \<noteq> [] then
                          (case getClass db (or_empty (classId sd)) of
                             Rejects \<Rightarrow> (Threw, st2)
                           | Fulfils classData \<Rightarrow>
                               (Returned, st2\<lparr>classGroup := classData, isLoading := False\<rparr>))
                        else (Returned, st2\<lparr>isLoading := False\<rparr>))))"

subsection \<open>handleSave\<close>

definition handleSave :: "store \<Rightarrow> profile \<Rightarrow> completion \<times> profile" where
  "handleSave db st =
     (case student st of
        None \<Rightarrow> (Returned, st)
      | Some s \<Rightarrow>
          (let st1 = st\<lparr>isSaving := True\<rparr>
           in case saveStudent db s of
                Rejects \<Rightarrow> (Threw, st1)
              | Fulfils updated \<Rightarrow>
                  (case updated of
                     Some u \<Rightarrow>
                       (Returned,
                        st1\<lparr>student := Some u,
                            alerts := alerts st1 @ [js ''Changes saved successfully!''],
                            isSaving := False\<rparr>)
                   | None \<Rightarrow>
                       (Returned,
                        st1\<lparr>alerts := alerts st1 @ [js ''Failed to save changes.''],
                            isSaving := False\<rparr>))))"

subsection \<open>calculateAverage\<close>

definition calculateAverage :: "Student \<Rightarrow> jsstring" where
  "calculateAverage s =
     (let sum = num_add (num_add (or_zero (Number (note1 s))) (or_zero (Number (note2 s))))
                        (or_zero (Number (note3 s)))
      in toFixed 2 (num_div sum (Finite 3)))"

subsection \<open>What the component renders\<close>

record profile_view =
  avatar :: jsstring          \<comment> \<open>\<open>student.name.charAt(0)\<close>\<close>
  heading :: jsstring         \<comment> \<open>\<open>student.name\<close>\<close>
  class_label :: jsstring     \<comment> \<open>\<open>classGroup?.name || 'Unassigned Class'\<close>\<close>
  gpa :: jsstring             \<comment> \<open>\<open>calculateAverage(student)\<close>\<close>
  editable :: bool            \<comment> \<open>the inputs are enabled and the save button is shown\<close>

datatype view = Spinner | StudentNotFound | ProfileView profile_view

definition render :: "bool \<Rightarrow> profile \<Rightarrow> view" where
  "render isTeacher st =
     (if isLoading st then Spinner
      else
        (case student st of
           None \<Rightarrow> StudentNotFound
         | Some s \<Rightarrow>
             ProfileView
               \<lparr>avatar = take 1 (student_name s),
                heading = student_name s,
                class_label =
                  (case classGroup st of
                     None \<Rightarrow> js ''Unassigned Class''
                   | Some g \<Rightarrow> if class_name g = [] then js ''Unassigned Class'' else class_name g),
                gpa = calculateAverage s,
                editable = isTeacher\<rparr>))"

section \<open>Example inputs\<close>

text \<open>
  A world whose remote model answers every request with \<open>r\<close>, an uploaded image that reads
  without error, and an environment that holds an API key.
\<close>

definition test_world :: "process_env \<Rightarrow> response \<Rightarrow> world" where
  "test_world p r = \<lparr>process = p, sdk_throws = False, provider = (\<lambda>ai req. r), network = [], console = []\<rparr>"

definition test_file :: image_file where
  "test_file = \<lparr>file_type = js ''image/png'', data_url = Some (js ''data:image/png;base64,AAAA'')\<rparr>"

definition test_key :: process_env where
  "test_key = Env (Some (js ''key''))"


text \<open>
  A student of class \<open>c9\<close> and a student without a class; a store that knows both, the
  class \<open>c9\<close> under the name \<open>5B\<close> and a class reference \<open>c0\<close> of no class, and that
  answers every save with null; and the same store with a save that is rejected.
\<close>

definition test_student :: Student where
  "test_student =
     \<lparr>student_id = js ''s1'', student_name = js ''Alice Smith'', classId = Some (js ''c9''),
      note1 = Some (Finite 12), note2 = Some (Finite 15), note3 = Some (Finite 18)\<rparr>"

definition no_class_student :: Student where
  "no_class_student =
     \<lparr>student_id = js ''s4'', student_name = js ''Dan Brown'', classId = None,
      note1 = Some (Finite 10), note2 = Some (Finite 11), note3 = Some (Finite 12)\<rparr>"

definition test_store :: store where
  "test_store =
     \<lparr>getStudent = (\<lambda>i. if i = js ''s1'' then Fulfils (Some test_student)
                         else if i = js ''s4'' then Fulfils (Some no_class_student)
                         else if i = js ''s5'' then Fulfils (Some (no_class_student\<lparr>classId := Some (js ''c0'')\<rparr>))
                         else Fulfils None),
      getClass = (\<lambda>i. if i = js ''c9'' then Fulfils (Some \<lparr>class_id = js ''c9'', class_name = js ''5B''\<rparr>)
                       else Fulfils None),
      saveStudent = (\<lambda>s. Fulfils None)\<rparr>"


definition loaded_profile :: profile where
  "loaded_profile =
     \<lparr>student = Some test_student,
      classGroup = Some \<lparr>class_id = js ''c9'', class_name = js ''5B''\<rparr>,
      isLoading = False, isSaving = False, alerts = []\<rparr>"



section \<open>Properties\<close>

lemma js_Nil [simp]: "js [] = []" by (simp add: js_def)
lemma js_Cons [simp]: "js (c # cs) = of_char c # js cs" by (simp add: js_def)

subsection \<open>The client\<close>

lemma getAIClient_provider [simp]: "provider (snd (getAIClient w)) = provider w"
  by (simp add: getAIClient_def console_log_def Let_def split: process_env.splits prod.splits)

lemma getAIClient_network [simp]: "network (snd (getAIClient w)) = network w"
  by (simp add: getAIClient_def console_log_def Let_def split: process_env.splits prod.splits)

lemma getAIClient_no_key:
  assumes "\<And>k. process w = Env (Some k) \<Longrightarrow> k = []"
  shows "fst (getAIClient w) = None"
  using assms
  by (cases "process w") (auto simp: getAIClient_def or_empty_def Let_def split: option.splits)

text \<open>
  Claim C10. \<open>generateSessionContent\<close> returns a string in every case and raises nothing:
  without a client it returns the fixed text about the unavailable service, when the
  remote call throws it returns the fixed text about the failed generation, an empty or
  absent payload is replaced by \<open>No content generated.\<close>, and a non-empty payload is
  returned as it is. The string is never empty.
\<close>

theorem session_content_never_raises:
  "fst (generateSessionContent topic ty w) =
     (case fst (getAIClient w) of
        None \<Rightarrow> js ''AI Service Unavailable (Missing or Invalid API Key)''
      | Some ai \<Rightarrow>
          (case provider w ai \<lparr>model = js ''gemini-2.5-flash'',
                                contents = Prompt (session_prompt topic ty), config = None\<rparr> of
             Rejected \<Rightarrow> js ''Failed to generate content. Please check your API key settings.''
           | Resolved t \<Rightarrow> if or_empty t = [] then js ''No content generated.'' else or_empty t))
   \<and> fst (generateSessionContent topic ty w) \<noteq> []"
proof -
  obtain c w1 where g: "getAIClient w = (c, w1)" by (cases "getAIClient w")
  then have p: "provider w1 = provider w"
    using getAIClient_provider[of w] by simp
  show ?thesis
    by (cases c)
       (auto simp: generateSessionContent_def generateContent_def g p split: response.splits)
qed

text \<open>
  Claim C5. When no API key is configured (no process environment, an environment that
  cannot be read, or a key that is undefined or empty), none of the three operations sends
  a request: \<open>generateSessionContent\<close> returns its placeholder text, and the two
  extraction operations raise an error that says the AI service is unavailable, whatever
  the file is, before the file is read.
\<close>

theorem no_credential_no_network:
  assumes "\<And>k. process w = Env (Some k) \<Longrightarrow> k = []"
  shows "fst (generateSessionContent topic ty w) = js ''AI Service Unavailable (Missing or Invalid API Key)''
       \<and> network (snd (generateSessionContent topic ty w)) = network w
       \<and> fst (extractStudentNamesFromImage f w) = Inl (Error (js ''AI Service Unavailable. Check API Key.''))
       \<and> network (snd (extractStudentNamesFromImage f w)) = network w
       \<and> fst (extractGradesFromImage f w) = Inl (Error (js ''AI Service Unavailable''))
       \<and> network (snd (extractGradesFromImage f w)) = network w"
proof -
  obtain c w1 where g: "getAIClient w = (c, w1)" by (cases "getAIClient w")
  have "fst (getAIClient w) = None" using assms by (rule getAIClient_no_key)
  then have c: "c = None" using g by simp
  have n: "network w1 = network w" using getAIClient_network[of w] g by simp
  show ?thesis
    by (simp add: generateSessionContent_def extractStudentNamesFromImage_def
          extractGradesFromImage_def g c n)
qed

theorem no_credential_no_network_witness:
  "fst (generateSessionContent (js ''Relay races'') Quiz (test_world (Env None) (Resolved (Some (js ''x'')))))
     = js ''AI Service Unavailable (Missing or Invalid API Key)''
   \<and> network (snd (generateSessionContent (js ''Relay races'') Quiz (test_world (Env None) (Resolved (Some (js ''x'')))))) = []
   \<and> fst (extractStudentNamesFromImage test_file (test_world (Env None) (Resolved (Some (js ''x'')))))
     = Inl (Error (js ''AI Service Unavailable. Check API Key.''))
   \<and> fst (extractGradesFromImage test_file (test_world (Env None) (Resolved (Some (js ''x'')))))
     = Inl (Error (js ''AI Service Unavailable''))"
  using no_credential_no_network[of "test_world (Env None) (Resolved (Some (js ''x'')))" "js ''Relay races''" Quiz test_file]
  by (simp add: test_world_def)


subsection \<open>Names\<close>

lemma split_on_not_Nil: "split_on sep s \<noteq> []"
  by (induction s) (auto split: list.splits)

lemma split_on_join: "concat (map (\<lambda>l. l @ [sep]) (split_on sep s)) = s @ [sep]"
proof (induction s)
  case Nil
  show ?case by simp
next
  case (Cons c cs)
  then show ?case
    by (cases "split_on sep cs") (auto simp: split_on_not_Nil)
qed

lemma split_on_pieces: "list_all (\<lambda>l. sep \<notin> set l) (split_on sep s)"
  by (induction s) (auto split: list.splits)

lemma trim_parts:
  "l = takeWhile is_space l @ trim l @ rev (takeWhile is_space (rev (dropWhile is_space l)))"
proof -
  let ?m = "dropWhile is_space l"
  have "rev ?m = takeWhile is_space (rev ?m) @ dropWhile is_space (rev ?m)"
    by simp
  then have "?m = rev (dropWhile is_space (rev ?m)) @ rev (takeWhile is_space (rev ?m))"
    by (metis rev_append rev_rev_ident)
  then have "?m = trim l @ rev (takeWhile is_space (rev ?m))"
    by (simp add: trim_def)
  moreover have "l = takeWhile is_space l @ ?m" by simp
  ultimately show ?thesis by metis
qed

lemma trim_between_spaces:
  "\<exists>a b. l = a @ trim l @ b \<and> list_all is_space a \<and> list_all is_space b"
proof -
  have "list_all is_space (takeWhile is_space l)"
    by (auto simp: list_all_iff dest: set_takeWhileD)
  moreover have "list_all is_space (rev (takeWhile is_space (rev (dropWhile is_space l))))"
    by (auto simp: list_all_iff dest: set_takeWhileD)
  ultimately show ?thesis using trim_parts[of l] by blast
qed

lemma dropWhile_all_iff: "(\<forall>x\<in>set (dropWhile P l). P x) \<longleftrightarrow> (\<forall>x\<in>set l. P x)"
  by (induction l) auto

lemma trim_Nil_iff: "trim l = [] \<longleftrightarrow> list_all is_space l"
  by (simp add: trim_def dropWhile_eq_Nil_conv list_all_iff dropWhile_all_iff)

lemma trim_last: "trim l \<noteq> [] \<Longrightarrow> \<not> is_space (last (trim l))"
  unfolding trim_def
  by (metis (full_types) hd_dropWhile last_rev rev_is_Nil_conv)

lemma trim_hd: "trim l \<noteq> [] \<Longrightarrow> \<not> is_space (hd (trim l))"
proof -
  assume ne: "trim l \<noteq> []"
  let ?m = "dropWhile is_space l"
  have "?m = [] \<Longrightarrow> trim l = []" by (simp add: trim_def del: dropWhile_eq_Nil_conv)
  then have m: "?m \<noteq> []" using ne by blast
  obtain b where "?m = trim l @ b"
    using trim_parts[of l] by (metis same_append_eq takeWhile_dropWhile_id)
  then have "hd (trim l) = hd ?m" using ne by (metis hd_append2)
  then show ?thesis using m by (simp add: hd_dropWhile)
qed

lemma names_of_text_filter:
  "names_of_text text = map trim (filter (\<lambda>l. \<not> list_all is_space l) (split_on 10 text))"
  by (simp add: names_of_text_def filter_map comp_def trim_Nil_iff)

lemma names_of_text_entries:
  "list_all (\<lambda>n. n \<noteq> [] \<and> \<not> is_space (hd n) \<and> \<not> is_space (last n)) (names_of_text text)"
  by (auto simp: names_of_text_def list_all_iff trim_hd trim_last)

lemma names_of_empty_text: "names_of_text [] = []"
  by (simp add: names_of_text_def trim_def)

lemma names_example:
  "names_of_text (js ''Alice Smith\<newline>\<newline>Bob Jones\<newline>  \<newline>'') = [js ''Alice Smith'', js ''Bob Jones'']"
  by (simp add: names_of_text_def trim_def is_space_def)

lemma extract_names_resolved:
  assumes "getAIClient w = (Some ai, w1)" and "fileToGenerativePart f = Inr b"
    and "provider w ai (image_request f b names_prompt None) = Resolved t"
  shows "fst (extractStudentNamesFromImage f w) = Inr (names_of_text (or_empty t))"
proof -
  have "provider w1 = provider w" using getAIClient_provider[of w] assms(1) by simp
  then show ?thesis
    using assms by (simp add: extractStudentNamesFromImage_def generateContent_def)
qed

text \<open>
  Claim C3. The name-list parser splits the text at line feeds (joining the pieces with
  line feeds gives the text back, and no piece holds a line feed), trims each line (a line
  is its trimmed form between two runs of white space), drops the lines that are blank and
  keeps the others in order; every name it returns is non-empty and starts and ends with a
  character that is not white space. On \<open>"Alice Smith\n\nBob Jones\n  \n"\<close> it returns
  \<open>["Alice Smith", "Bob Jones"]\<close>, and on the empty text the empty list. Whenever the
  remote call returns, the operation returns the parsed list and no error.
\<close>

theorem name_list_parser:
  "concat (map (\<lambda>l. l @ [10]) (split_on 10 raw)) = raw @ [10]
   \<and> list_all (\<lambda>l. 10 \<notin> set l) (split_on 10 raw)
   \<and> (\<forall>l. \<exists>a b. l = a @ trim l @ b \<and> list_all is_space a \<and> list_all is_space b)
   \<and> names_of_text raw = map trim (filter (\<lambda>l. \<not> list_all is_space l) (split_on 10 raw))
   \<and> list_all (\<lambda>n. n \<noteq> [] \<and> \<not> is_space (hd n) \<and> \<not> is_space (last n)) (names_of_text raw)
   \<and> names_of_text (js ''Alice Smith\<newline>\<newline>Bob Jones\<newline>  \<newline>'') = [js ''Alice Smith'', js ''Bob Jones'']
   \<and> names_of_text [] = []
   \<and> (\<forall>w f ai w1 b t.
         getAIClient w = (Some ai, w1) \<and> fileToGenerativePart f = Inr b
         \<and> provider w ai (image_request f b names_prompt None) = Resolved t
         \<longrightarrow> fst (extractStudentNamesFromImage f w) = Inr (names_of_text (or_empty t)))"
  using split_on_join[of 10 raw] split_on_pieces[of 10 raw] trim_between_spaces
    names_of_text_filter[of raw] names_of_text_entries[of raw] names_example
    names_of_empty_text extract_names_resolved
  by blast


lemma test_client: "getAIClient (test_world test_key r) = (Some (GoogleGenAI (js ''key'')), test_world test_key r)"
  by (simp add: getAIClient_def test_world_def test_key_def or_empty_def)

lemma test_file_part: "fileToGenerativePart test_file = Inr (Some (js ''AAAA''))"
  by (simp add: fileToGenerativePart_def test_file_def index_def)

lemma test_provider: "provider (test_world p r) ai req = r"
  by (simp add: test_world_def)

theorem name_list_parser_witness:
  "fst (extractStudentNamesFromImage test_file
          (test_world test_key (Resolved (Some (js ''Alice Smith\<newline>\<newline>Bob Jones\<newline>  \<newline>'')))))
     = Inr [js ''Alice Smith'', js ''Bob Jones'']"
proof -
  let ?t = "js ''Alice Smith\<newline>\<newline>Bob Jones\<newline>  \<newline>''"
  let ?w = "test_world test_key (Resolved (Some ?t))"
  note p = name_list_parser[of ?t]
  from p have ex: "names_of_text ?t = [js ''Alice Smith'', js ''Bob Jones'']" by blast
  from p have "getAIClient ?w = (Some (GoogleGenAI (js ''key'')), ?w) \<and> fileToGenerativePart test_file = Inr (Some (js ''AAAA''))
         \<and> provider ?w (GoogleGenAI (js ''key'')) (image_request test_file (Some (js ''AAAA'')) names_prompt None) = Resolved (Some ?t)
         \<longrightarrow> fst (extractStudentNamesFromImage test_file ?w) = Inr (names_of_text (or_empty (Some ?t)))"
    by blast
  then have "fst (extractStudentNamesFromImage test_file ?w) = Inr (names_of_text (or_empty (Some ?t)))"
    using test_client test_file_part test_provider by blast
  then show ?thesis using ex by (simp add: or_empty_def)
qed

subsection \<open>Duplicates\<close>

lemma count_list_filter: "count_list (filter P xs) n = (if P n then count_list xs n else 0)"
  by (induction xs) auto

text \<open>
  Claim C7 as stated fails: the parser keeps duplicates. Two lines with the same name give
  a list with that name twice.
\<close>

theorem names_duplicates_counterexample:
  "names_of_text (js ''Ann\<newline>Ann'') = [js ''Ann'', js ''Ann'']
   \<and> \<not> distinct (names_of_text (js ''Ann\<newline>Ann''))"
  by (simp add: names_of_text_def trim_def is_space_def)

text \<open>
  Claim C7, amended. The list of names has no blank entry, and nothing else is dropped:
  every non-empty name occurs in the list as many times as there are lines that trim to
  it.
\<close>

theorem names_no_blank_entries:
  "list_all (\<lambda>n. \<not> list_all is_space n) (names_of_text raw)
   \<and> count_list (names_of_text raw) n = (if n = [] then 0 else count_list (map trim (split_on 10 raw)) n)"
proof -
  have "\<And>n. n \<noteq> [] \<and> \<not> is_space (hd n) \<and> \<not> is_space (last n) \<Longrightarrow> \<not> list_all is_space n"
    by (auto simp: list_all_iff)
  then have "list_all (\<lambda>n. \<not> list_all is_space n) (names_of_text raw)"
    using names_of_text_entries[of raw] unfolding list_all_iff by blast
  then show ?thesis by (simp add: names_of_text_def count_list_filter)
qed

subsection \<open>Grades\<close>

lemma JSON_parse_empty: "JSON_parse [] = Inl JSONSyntaxError"
  by (simp add: JSON_parse_def skip_ws_def)

lemma extract_grades_resolved:
  assumes "getAIClient w = (Some ai, w1)" and "fileToGenerativePart f = Inr b"
    and "provider w ai (image_request f b grades_prompt (Some grades_config)) = Resolved t"
  shows "fst (extractGradesFromImage f w) =
           (if or_empty t = [] then Inr (JArray [])
            else (case JSON_parse (replace_trailing_fence (replace_leading_fence (or_empty t))) of
                    Inr v \<Rightarrow> Inr v
                  | Inl e \<Rightarrow> Inl (Error (js ''Failed to extract grades from image.''))))"
    and "console (snd (extractGradesFromImage f w)) =
           (if or_empty t \<noteq> [] \<and> isl (JSON_parse (replace_trailing_fence (replace_leading_fence (or_empty t))))
            then console w1 @ [js ''Gemini Grade Extraction Error:''] else console w1)"
proof -
  have p: "provider w1 = provider w" using getAIClient_provider[of w] assms(1) by simp
  show "fst (extractGradesFromImage f w) =
           (if or_empty t = [] then Inr (JArray [])
            else (case JSON_parse (replace_trailing_fence (replace_leading_fence (or_empty t))) of
                    Inr v \<Rightarrow> Inr v
                  | Inl e \<Rightarrow> Inl (Error (js ''Failed to extract grades from image.''))))"
    using assms p by (simp add: extractGradesFromImage_def generateContent_def split: sum.splits)
  show "console (snd (extractGradesFromImage f w)) =
           (if or_empty t \<noteq> [] \<and> isl (JSON_parse (replace_trailing_fence (replace_leading_fence (or_empty t))))
            then console w1 @ [js ''Gemini Grade Extraction Error:''] else console w1)"
    using assms p
    by (auto simp add: extractGradesFromImage_def generateContent_def console_log_def split: sum.splits)
qed

text \<open>
  Claim C9. When the remote call succeeds with an absent or empty text,
  \<open>extractGradesFromImage\<close> returns the empty array and logs no error, although the
  empty text is not JSON: parsing it would have failed.
\<close>

theorem grades_empty_payload:
  assumes "getAIClient w = (Some ai, w1)" and "fileToGenerativePart f = Inr b"
    and "provider w ai (image_request f b grades_prompt (Some grades_config)) = Resolved t"
    and "t = None \<or> t = Some []"
  shows "fst (extractGradesFromImage f w) = Inr (JArray [])
       \<and> console (snd (extractGradesFromImage f w)) = console w1
       \<and> JSON_parse (replace_trailing_fence (replace_leading_fence (or_empty t))) = Inl JSONSyntaxError"
proof -
  have e: "or_empty t = []" using assms(4) by (auto simp: or_empty_def)
  show ?thesis
    using extract_grades_resolved[OF assms(1-3)] e by (simp add: replace_leading_fence_def JSON_parse_empty)
qed

theorem grades_empty_payload_witness:
  "fst (extractGradesFromImage test_file (test_world test_key (Resolved None))) = Inr (JArray [])
   \<and> console (snd (extractGradesFromImage test_file (test_world test_key (Resolved None)))) = []
   \<and> JSON_parse (replace_trailing_fence (replace_leading_fence (or_empty None))) = Inl JSONSyntaxError"
  using grades_empty_payload[OF test_client test_file_part test_provider, of None]
  by (simp add: test_world_def)

text \<open>
  Claim C2 as stated fails at the empty text: it is not valid JSON, and the function
  returns the empty array for it.
\<close>

theorem grades_malformed_counterexample:
  "JSON_parse (replace_trailing_fence (replace_leading_fence [])) = Inl JSONSyntaxError
   \<and> fst (extractGradesFromImage test_file (test_world test_key (Resolved (Some [])))) = Inr (JArray [])"
proof -
  have "fst (extractGradesFromImage test_file (test_world test_key (Resolved (Some [])))) =
          (if or_empty (Some []) = [] then Inr (JArray [])
           else (case JSON_parse (replace_trailing_fence (replace_leading_fence (or_empty (Some [])))) of
                   Inr v \<Rightarrow> Inr v
                 | Inl e \<Rightarrow> Inl (Error (js ''Failed to extract grades from image.''))))"
    by (rule extract_grades_resolved(1)[OF test_client test_file_part test_provider])
  then show ?thesis
    by (simp add: replace_leading_fence_def JSON_parse_empty or_empty_def)
qed

text \<open>
  Claim C2, amended. For every non-empty text of the model that is not valid JSON once the
  code-fence markers are removed, \<open>extractGradesFromImage\<close> raises the error
  \<open>Failed to extract grades from image.\<close> and returns no list.
\<close>

theorem grades_malformed_raises:
  assumes "getAIClient w = (Some ai, w1)" and "fileToGenerativePart f = Inr b"
    and "provider w ai (image_request f b grades_prompt (Some grades_config)) = Resolved (Some raw)"
    and "raw \<noteq> []"
    and "JSON_parse (replace_trailing_fence (replace_leading_fence raw)) = Inl e"
  shows "fst (extractGradesFromImage f w) = Inl (Error (js ''Failed to extract grades from image.''))"
  using extract_grades_resolved(1)[OF assms(1-3)] assms(4,5) by (simp add: or_empty_def)

lemma not_json: "JSON_parse (js ''not json'') = Inl JSONSyntaxError"
  by code_simp

theorem grades_malformed_raises_witness:
  "fst (extractGradesFromImage test_file (test_world test_key (Resolved (Some (js ''not json'')))))
     = Inl (Error (js ''Failed to extract grades from image.''))"
proof -
  have c: "replace_trailing_fence (replace_leading_fence (js ''not json'')) = js ''not json''"
    by (simp add: replace_leading_fence_def fence_def is_space_def)
  have p: "JSON_parse (replace_trailing_fence (replace_leading_fence (js ''not json''))) = Inl JSONSyntaxError"
    by (simp only: c not_json)
  show ?thesis
    by (rule grades_malformed_raises[OF test_client test_file_part test_provider _ p]) simp
qed

subsection \<open>Saving\<close>

text \<open>
  What \<open>handleSave\<close> does with each outcome of the save. A null is reported with an alert
  and the state is otherwise as before; a rejected save ends the handler at the \<open>await\<close>.
  In both cases the student held by the component is untouched.
\<close>

lemma save_null_reported:
  assumes "student st = Some s" and "saveStudent db s = Fulfils None"
  shows "handleSave db st =
           (Returned, st\<lparr>isSaving := False, alerts := alerts st @ [js ''Failed to save changes.'']\<rparr>)"
  using assms by (simp add: handleSave_def)

lemma save_rejected:
  assumes "student st = Some s" and "saveStudent db s = Rejects"
  shows "handleSave db st = (Threw, st\<lparr>isSaving := True\<rparr>)"
  using assms by (simp add: handleSave_def)

lemma failed_save_keeps_student:
  assumes "student st = Some s" and "saveStudent db s = Fulfils None \<or> saveStudent db s = Rejects"
  shows "student (snd (handleSave db st)) = Some s"
  using assms by (auto simp: handleSave_def)

lemma loaded_profile_fetched:
  "fetchData test_store (Some (js ''s1'')) initial_profile = (Returned, loaded_profile)"
  by (simp add: fetchData_def test_store_def test_student_def initial_profile_def
        loaded_profile_def or_empty_def)

lemma save_null_example:
  "handleSave test_store loaded_profile =
     (Returned, loaded_profile\<lparr>alerts := [js ''Failed to save changes.'']\<rparr>)"
  by (simp add: handleSave_def test_store_def loaded_profile_def)


subsection \<open>The class label\<close>

text \<open>
  The label of the class after a load. When the student has a class reference and the
  store has no class for it, the label is \<open>Unassigned Class\<close>, whatever was loaded before.
  When the student has no class reference, \<open>fetchData\<close> does not touch \<open>classGroup\<close>: the
  label is \<open>Unassigned Class\<close> when no class group was held before, and the name of the
  class group held before otherwise.
\<close>

lemma class_label_unresolved:
  assumes "or_empty ident \<noteq> []" and "getStudent db (or_empty ident) = Fulfils (Some s)"
    and "(or_empty (classId s) \<noteq> [] \<and> getClass db (or_empty (classId s)) = Fulfils None)
         \<or> (or_empty (classId s) = [] \<and> classGroup st = None)"
  shows "fst (fetchData db ident st) = Returned"
    and "render isTeacher (snd (fetchData db ident st)) =
           ProfileView \<lparr>avatar = take 1 (student_name s), heading = student_name s,
                        class_label = js ''Unassigned Class'', gpa = calculateAverage s,
                        editable = isTeacher\<rparr>"
  using assms by (auto simp: render_def fetchData_def Let_def)

lemma class_label_stale:
  assumes "or_empty ident \<noteq> []" and "getStudent db (or_empty ident) = Fulfils (Some s)"
    and "or_empty (classId s) = []" and "classGroup st = Some g" and "class_name g \<noteq> []"
  shows "render isTeacher (snd (fetchData db ident st)) =
           ProfileView \<lparr>avatar = take 1 (student_name s), heading = student_name s,
                        class_label = class_name g, gpa = calculateAverage s,
                        editable = isTeacher\<rparr>"
  using assms by (auto simp: render_def fetchData_def Let_def)

lemma class_label_unresolved_example:
  "render False (snd (fetchData test_store (Some (js ''s5'')) loaded_profile)) =
     ProfileView \<lparr>avatar = js ''D'', heading = js ''Dan Brown'',
                  class_label = js ''Unassigned Class'',
                  gpa = calculateAverage (no_class_student\<lparr>classId := Some (js ''c0'')\<rparr>),
                  editable = False\<rparr>"
  by (simp add: render_def fetchData_def test_store_def no_class_student_def loaded_profile_def
        or_empty_def)

text \<open>
  Claim C8. The claim asks for the label \<open>Unassigned Class\<close> for every student whose class
  does not resolve. The code gives it when the class lookup finds nothing, and misses the
  student without a class reference who is loaded after a student with a class:
  \<open>fetchData\<close> calls \<open>setClassGroup\<close> only inside \<open>if (studentData && studentData.classId)\<close>,
  so the class group of the earlier student stays. After the student of class \<open>5B\<close>, the
  profile of the student without a class shows the label \<open>5B\<close>.
\<close>

theorem stale_class_label:
  "classId no_class_student = None
   \<and> fetchData test_store (Some (js ''s1'')) initial_profile = (Returned, loaded_profile)
   \<and> render False (snd (fetchData test_store (Some (js ''s4'')) loaded_profile)) =
       ProfileView \<lparr>avatar = js ''D'', heading = js ''Dan Brown'', class_label = js ''5B'',
                    gpa = calculateAverage no_class_student, editable = False\<rparr>
   \<and> render False (snd (fetchData test_store (Some (js ''s4'')) initial_profile)) =
       ProfileView \<lparr>avatar = js ''D'', heading = js ''Dan Brown'', class_label = js ''Unassigned Class'',
                    gpa = calculateAverage no_class_student, editable = False\<rparr>"
  by (simp add: render_def fetchData_def test_store_def test_student_def no_class_student_def
        loaded_profile_def initial_profile_def or_empty_def)

subsection \<open>Fences\<close>

lemma fence_not_space: "dropWhile is_space (ws @ fence) = fence" if "list_all is_space ws"
  using that by (induction ws) (auto simp: fence_def is_space_def)

lemma replace_trailing_fence_strip:
  assumes "list_all is_space ws" and "body = [] \<or> \<not> is_space (last body)"
  shows "replace_trailing_fence (body @ ws @ fence) = body"
  using assms(2)
proof (induction body)
  case Nil
  have "ws @ fence \<noteq> []" by (simp add: fence_def)
  then obtain c cs where e: "ws @ fence = c # cs" by (cases "ws @ fence") auto
  have "dropWhile is_space (c # cs) = fence" using fence_not_space[OF assms(1)] e by simp
  then have "replace_trailing_fence (c # cs) = []" by simp
  then show ?case using e by simp
next
  case (Cons x xs)
  let ?b = "x # xs"
  have l: "\<not> is_space (last ?b)" using Cons.prems by simp
  have m: "last ?b \<in> set ?b" by (rule last_in_set) simp
  have "dropWhile is_space (?b @ ws @ fence) = dropWhile is_space ?b @ ws @ fence"
    using l m by (rule dropWhile_append1[rotated])
  moreover have "dropWhile is_space ?b \<noteq> []"
    using l m by (metis dropWhile_eq_Nil_conv)
  ultimately have "dropWhile is_space (?b @ ws @ fence) \<noteq> fence"
    by (metis append_self_conv2 append_is_Nil_conv same_append_eq append_assoc)
  moreover have "xs = [] \<or> \<not> is_space (last xs)" using Cons.prems by (cases xs) auto
  ultimately show ?case using Cons.IH by simp
qed

lemma replace_leading_fence_strip:
  assumes "list_all is_space ws" and "rest = [] \<or> \<not> is_space (hd rest)"
  shows "replace_leading_fence (fence @ js ''json'' @ ws @ rest) = rest"
proof -
  have "dropWhile is_space rest = rest"
    using assms(2) by (cases rest) auto
  then have "dropWhile is_space (ws @ rest) = rest"
    using assms(1) by (induction ws) auto
  then show ?thesis by (simp add: replace_leading_fence_def fence_def)
qed

lemma fences_stripped:
  assumes "list_all is_space ws1" and "list_all is_space ws2"
    and "body = [] \<or> (\<not> is_space (hd body) \<and> \<not> is_space (last body))"
  shows "replace_trailing_fence (replace_leading_fence (fence @ js ''json'' @ ws1 @ body @ ws2 @ fence)) = body"
proof (cases "body = []")
  case True
  have "replace_leading_fence (fence @ js ''json'' @ (ws1 @ ws2) @ fence) = fence"
    by (rule replace_leading_fence_strip) (use assms in \<open>auto simp: fence_def is_space_def\<close>)
  moreover have "replace_trailing_fence ([] @ [] @ fence) = []"
    by (rule replace_trailing_fence_strip) auto
  ultimately show ?thesis using True by simp
next
  case False
  then have "replace_leading_fence (fence @ js ''json'' @ ws1 @ (body @ ws2 @ fence)) = body @ ws2 @ fence"
    using assms by (intro replace_leading_fence_strip) auto
  moreover have "replace_trailing_fence (body @ ws2 @ fence) = body"
    using assms False by (intro replace_trailing_fence_strip) auto
  ultimately show ?thesis by simp
qed

lemma sample_parse:
  "JSON_parse (js ''[{\"name\":\"A\",\"note1\":1,\"note2\":2,\"note3\":3}]'') =
     Inr (JArray [JObject [(js ''name'', JString (js ''A'')), (js ''note1'', JNumber (Finite 1)),
                           (js ''note2'', JNumber (Finite 2)), (js ''note3'', JNumber (Finite 3))]])"
  by code_simp

lemma sample_clean:
  "replace_trailing_fence (replace_leading_fence
      (fence @ js ''json\<newline>[{\"name\":\"A\",\"note1\":1,\"note2\":2,\"note3\":3}]\<newline>'' @ fence))
   = js ''[{\"name\":\"A\",\"note1\":1,\"note2\":2,\"note3\":3}]''"
proof -
  have "replace_trailing_fence (replace_leading_fence
      (fence @ js ''json'' @ [10] @ js ''[{\"name\":\"A\",\"note1\":1,\"note2\":2,\"note3\":3}]'' @ [10] @ fence))
   = js ''[{\"name\":\"A\",\"note1\":1,\"note2\":2,\"note3\":3}]''"
    by (rule fences_stripped) (simp_all add: is_space_def)
  then show ?thesis by simp
qed

subsection \<open>Fuel\<close>

lemma skip_ws_length: "length (skip_ws s) \<le> length s"
  by (simp add: skip_ws_def length_dropWhile_le)

lemma skip_ws_Cons_length: "skip_ws s = c # cs \<Longrightarrow> length cs < length s"
  using skip_ws_length[of s] by simp

lemma string_chars_length: "string_chars s = Some (k, r) \<Longrightarrow> length r < length s"
proof (induction s arbitrary: k r rule: string_chars.induct)
  case 1
  then show ?case by simp
next
  case (2 c cs)
  show ?case
  proof (cases "c = 34")
    case True
    then show ?thesis using "2.prems" by simp
  next
    case ne: False
    show ?thesis
    proof (cases "c = 92")
      case False
      then obtain k' where "string_chars cs = Some (k', r)"
        using "2.prems" ne by (auto split: if_splits)
      then have "length r < length cs" using "2.IH"(3) ne False
        by (cases "c < 32") (use "2.prems" in \<open>auto split: if_splits\<close>)
      then show ?thesis by simp
    next
      case True
      then obtain e es where cs: "cs = e # es"
        using "2.prems" ne by (cases cs) auto
      show ?thesis
      proof (cases "e = 117")
        case False
        then obtain u k' where "unescape e = Some u" "string_chars es = Some (k', r)"
          using "2.prems" ne True cs by (auto split: option.splits)
        then have "length r < length es" using "2.IH"(2)[OF ne True cs False] by blast
        then show ?thesis using cs by simp
      next
        case u: True
        then obtain h1 h2 h3 h4 rest where es: "es = h1 # h2 # h3 # h4 # rest"
          using "2.prems" ne True cs by (auto split: list.splits)
        then obtain x k' where "hex4 h1 h2 h3 h4 = Some x" "string_chars rest = Some (k', r)"
          using "2.prems" ne True cs u by (auto split: option.splits)
        then have "length r < length rest"
          using "2.IH"(1)[OF ne True cs u es] by blast
        then show ?thesis using cs es by simp
      qed
    qed
  qed
qed

lemma literal_length: "literal word v s = Ok v' r \<Longrightarrow> word \<noteq> [] \<Longrightarrow> length r < length s"
proof -
  assume a: "literal word v s = Ok v' r" and w: "word \<noteq> []"
  then have t: "take (length word) s = word" and r: "r = drop (length word) s"
    by (auto simp: literal_def split: if_splits)
  have "length (take (length word) s) = length word" using t by simp
  then have "length word \<le> length s" by simp
  then show ?thesis using r w by (cases word) auto
qed

lemma frac_part_length: "frac_part t = Some (fp, u) \<Longrightarrow> length u \<le> length t"
  by (auto simp: frac_part_def split: list.splits if_splits
           intro: le_SucI order_trans[OF length_dropWhile_le])

lemma exp_sign_length: "exp_sign t = (b, u) \<Longrightarrow> length u \<le> length t"
  by (auto simp: exp_sign_def split: list.splits if_splits)

lemma exp_part_length: "exp_part t = Some (ex, u) \<Longrightarrow> length u \<le> length t"
proof (cases t)
  case Nil
  assume "exp_part t = Some (ex, u)"
  then show ?thesis using Nil by (simp add: exp_part_def)
next
  case (Cons c r)
  assume a: "exp_part t = Some (ex, u)"
  obtain b r1 where s: "exp_sign r = (b, r1)" by (cases "exp_sign r")
  have "length (dropWhile is_digit r1) \<le> length r"
    using exp_sign_length[OF s] length_dropWhile_le[of is_digit r1] by simp
  then show ?thesis
    using a Cons s by (auto simp: exp_part_def Let_def split: if_splits)
qed

lemma number_token_length: "number_token s = Some (x, r) \<Longrightarrow> length r < length s"
proof -
  assume a: "number_token s = Some (x, r)"
  obtain neg s1 where m: "minus_sign s = (neg, s1)" by (cases "minus_sign s")
  have l1: "length s1 \<le> length s"
    using m by (auto simp: minus_sign_def split: list.splits if_splits)
  let ?ip = "int_part s1"
  have ip: "?ip \<noteq> []" using a m by (auto simp: number_token_def Let_def split: if_splits)
  have l0: "length ?ip \<le> length s1"
    by (auto simp: int_part_def length_takeWhile_le split: list.splits)
  obtain fp s3 where f: "frac_part (drop (length ?ip) s1) = Some (fp, s3)"
    using a m ip by (auto simp: number_token_def Let_def split: option.splits)
  have l3: "length s3 \<le> length (drop (length ?ip) s1)"
    using f by (rule frac_part_length)
  obtain ex s4 where e: "exp_part s3 = Some (ex, s4)"
    using a m ip f by (auto simp: number_token_def Let_def split: option.splits)
  have r: "r = s4" using a m ip f e by (auto simp: number_token_def Let_def)
  have l4: "length s4 \<le> length s3"
    using e by (rule exp_part_length)
  show ?thesis using r l1 l0 ip l3 l4 by (cases ?ip) auto
qed


lemma parse_value_consumes_step:
  assumes M: "\<And>acc s v r. parse_members n acc s = Ok v r \<Longrightarrow> length r < length s"
    and E: "\<And>acc s v r. parse_elements n acc s = Ok v r \<Longrightarrow> length r < length s"
    and a: "parse_value (Suc n) s = Ok v r"
  shows "length r < length s"
proof -
  obtain c cs where k: "skip_ws s = c # cs"
    using a by (cases "skip_ws s") auto
  have l: "length cs < length s" using k by (rule skip_ws_Cons_length)
  have l': "length (c # cs) \<le> length s" using skip_ws_length[of s] k by simp
  consider (obj) "c = 123" | (arr) "c = 91" | (str) "c = 34" | (t) "c = 116" | (f) "c = 102"
    | (n) "c = 110" | (num) "c \<noteq> 123" "c \<noteq> 91" "c \<noteq> 34" "c \<noteq> 116" "c \<noteq> 102" "c \<noteq> 110"
    by blast
  then show ?thesis
  proof cases
    case obj
    then obtain d ds where k2: "skip_ws cs = d # ds"
      using a k by (cases "skip_ws cs") auto
    have "length ds < length cs" using k2 by (rule skip_ws_Cons_length)
    moreover have "d \<noteq> 125 \<Longrightarrow> length r < length cs"
      using a k obj k2 M[of "[]" cs v r] by simp
    moreover have "d = 125 \<Longrightarrow> r = ds" using a k obj k2 by simp
    ultimately show ?thesis using l by (cases "d = 125") auto
  next
    case arr
    then obtain d ds where k2: "skip_ws cs = d # ds"
      using a k by (cases "skip_ws cs") auto
    have "length ds < length cs" using k2 by (rule skip_ws_Cons_length)
    moreover have "d \<noteq> 93 \<Longrightarrow> length r < length cs"
      using a k arr k2 E[of "[]" cs v r] by simp
    moreover have "d = 93 \<Longrightarrow> r = ds" using a k arr k2 by simp
    ultimately show ?thesis using l by (cases "d = 93") auto
  next
    case str
    then obtain x where "string_chars cs = Some (x, r)"
      using a k by (auto split: option.splits)
    then show ?thesis using string_chars_length l by fastforce
  next
    case t
    then have "literal (js ''true'') (JBool True) (c # cs) = Ok v r" using a k by simp
    then have "length r < length (c # cs)" by (rule literal_length) simp
    then show ?thesis using l' by simp
  next
    case f
    then have "literal (js ''false'') (JBool False) (c # cs) = Ok v r" using a k by simp
    then have "length r < length (c # cs)" by (rule literal_length) simp
    then show ?thesis using l' by simp
  next
    case n
    then have "literal (js ''null'') JNull (c # cs) = Ok v r" using a k by simp
    then have "length r < length (c # cs)" by (rule literal_length) simp
    then show ?thesis using l' by simp
  next
    case num
    then obtain x where "number_token (c # cs) = Some (x, r)"
      using a k by (auto split: option.splits)
    then have "length r < length (c # cs)" by (rule number_token_length)
    then show ?thesis using l' by simp
  qed
qed

lemma parse_elements_consumes_step:
  assumes V: "\<And>s v r. parse_value n s = Ok v r \<Longrightarrow> length r < length s"
    and E: "\<And>acc s v r. parse_elements n acc s = Ok v r \<Longrightarrow> length r < length s"
    and a: "parse_elements (Suc n) acc s = Ok v r"
  shows "length r < length s"
proof -
  obtain x r1 where p: "parse_value n s = Ok x r1"
    using a by (cases "parse_value n s") auto
  have l1: "length r1 < length s" using p by (rule V)
  obtain d ds where k: "skip_ws r1 = d # ds"
    using a p by (cases "skip_ws r1") auto
  have l2: "length ds < length r1" using k by (rule skip_ws_Cons_length)
  have "d = 44 \<Longrightarrow> length r < length ds"
    using a p k E[of "acc @ [x]" ds v r] by simp
  moreover have "d \<noteq> 44 \<Longrightarrow> r = ds" using a p k by (auto split: if_splits)
  ultimately show ?thesis using l1 l2 by (cases "d = 44") auto
qed

lemma parse_members_consumes_step:
  assumes V: "\<And>s v r. parse_value n s = Ok v r \<Longrightarrow> length r < length s"
    and M: "\<And>acc s v r. parse_members n acc s = Ok v r \<Longrightarrow> length r < length s"
    and a: "parse_members (Suc n) acc s = Ok v r"
  shows "length r < length s"
proof -
  obtain q cs where k0: "skip_ws s = q # cs"
    using a by (cases "skip_ws s") auto
  have q: "q = 34" using a k0 by (auto split: if_splits)
  have l0: "length cs < length s" using k0 by (rule skip_ws_Cons_length)
  obtain key r0 where sc: "string_chars cs = Some (key, r0)"
    using a k0 q by (auto split: option.splits)
  have l1: "length r0 < length cs" using sc by (rule string_chars_length)
  obtain colon r1 where k1: "skip_ws r0 = colon # r1"
    using a k0 q sc by (cases "skip_ws r0") auto
  have c: "colon = 58" using a k0 q sc k1 by (auto split: if_splits)
  have l2: "length r1 < length r0" using k1 by (rule skip_ws_Cons_length)
  obtain x r2 where p: "parse_value n r1 = Ok x r2"
    using a k0 q sc k1 c by (cases "parse_value n r1") auto
  have l3: "length r2 < length r1" using p by (rule V)
  obtain d ds where k2: "skip_ws r2 = d # ds"
    using a k0 q sc k1 c p by (cases "skip_ws r2") auto
  have l4: "length ds < length r2" using k2 by (rule skip_ws_Cons_length)
  have "d = 44 \<Longrightarrow> length r < length ds"
    using a k0 q sc k1 c p k2 M[of "set_member key x acc" ds v r] by simp
  moreover have "d \<noteq> 44 \<Longrightarrow> r = ds" using a k0 q sc k1 c p k2 by (auto split: if_splits)
  ultimately show ?thesis using l0 l1 l2 l3 l4 by (cases "d = 44") auto
qed

lemma parse_consumes:
  "(\<forall>s v r. parse_value n s = Ok v r \<longrightarrow> length r < length s)
   \<and> (\<forall>acc s v r. parse_elements n acc s = Ok v r \<longrightarrow> length r < length s)
   \<and> (\<forall>acc s v r. parse_members n acc s = Ok v r \<longrightarrow> length r < length s)"
proof (induction n)
  case 0
  show ?case by simp
next
  case (Suc n)
  have V: "\<And>s v r. parse_value n s = Ok v r \<Longrightarrow> length r < length s"
    using Suc by blast
  have E: "\<And>acc s v r. parse_elements n acc s = Ok v r \<Longrightarrow> length r < length s"
    using Suc by blast
  have M: "\<And>acc s v r. parse_members n acc s = Ok v r \<Longrightarrow> length r < length s"
    using Suc by blast
  have a: "length r < length s" if "parse_value (Suc n) s = Ok v r" for s v r
    using M E that by (rule parse_value_consumes_step)
  have b: "length r < length s" if "parse_elements (Suc n) acc s = Ok v r" for acc s v r
    using V E that by (rule parse_elements_consumes_step)
  have c: "length r < length s" if "parse_members (Suc n) acc s = Ok v r" for acc s v r
    using V M that by (rule parse_members_consumes_step)
  show ?case using a b c by blast
qed

lemma parse_value_consumes: "parse_value n s = Ok v r \<Longrightarrow> length r < length s"
  using parse_consumes by blast

lemma parse_value_fuel_step:
  assumes M: "\<And>acc s. 2 * length s + 2 \<le> n \<Longrightarrow> parse_members n acc s \<noteq> OutOfFuel"
    and E: "\<And>acc s. 2 * length s + 2 \<le> n \<Longrightarrow> parse_elements n acc s \<noteq> OutOfFuel"
    and f: "2 * length s + 1 \<le> Suc n"
  shows "parse_value (Suc n) s \<noteq> OutOfFuel"
proof (cases "skip_ws s")
  case Nil
  then show ?thesis by simp
next
  case (Cons c cs)
  have "length cs < length s" using Cons by (rule skip_ws_Cons_length)
  then have g: "2 * length cs + 2 \<le> n" using f by simp
  show ?thesis
    using Cons M[OF g, of "[]"] E[OF g, of "[]"]
    by (auto simp: literal_def split: list.splits option.splits)
qed

lemma parse_elements_fuel_step:
  assumes V: "\<And>s. 2 * length s + 1 \<le> n \<Longrightarrow> parse_value n s \<noteq> OutOfFuel"
    and E: "\<And>acc s. 2 * length s + 2 \<le> n \<Longrightarrow> parse_elements n acc s \<noteq> OutOfFuel"
    and f: "2 * length s + 2 \<le> Suc n"
  shows "parse_elements (Suc n) acc s \<noteq> OutOfFuel"
proof (cases "parse_value n s")
  case (Ok x r1)
  have l1: "length r1 < length s" using Ok by (rule parse_value_consumes)
  show ?thesis
  proof (cases "skip_ws r1")
    case Nil
    then show ?thesis using Ok by simp
  next
    case (Cons d ds)
    have "length ds < length r1" using Cons by (rule skip_ws_Cons_length)
    then have "2 * length ds + 2 \<le> n" using l1 f by simp
    then have "parse_elements n (acc @ [x]) ds \<noteq> OutOfFuel" by (rule E)
    then show ?thesis using Ok Cons by simp
  qed
next
  case SyntaxError
  then show ?thesis by simp
next
  case OutOfFuel
  moreover have "parse_value n s \<noteq> OutOfFuel" using f by (intro V) simp
  ultimately show ?thesis by simp
qed

lemma parse_members_fuel_step:
  assumes V: "\<And>s. 2 * length s + 1 \<le> n \<Longrightarrow> parse_value n s \<noteq> OutOfFuel"
    and M: "\<And>acc s. 2 * length s + 2 \<le> n \<Longrightarrow> parse_members n acc s \<noteq> OutOfFuel"
    and f: "2 * length s + 2 \<le> Suc n"
  shows "parse_members (Suc n) acc s \<noteq> OutOfFuel"
proof (rule notI)
  assume a: "parse_members (Suc n) acc s = OutOfFuel"
  obtain q cs where k0: "skip_ws s = q # cs"
    using a by (cases "skip_ws s") auto
  have q: "q = 34" using a k0 by (auto split: if_splits)
  have l0: "length cs < length s" using k0 by (rule skip_ws_Cons_length)
  obtain key r0 where sc: "string_chars cs = Some (key, r0)"
    using a k0 q by (auto split: option.splits)
  have l1: "length r0 < length cs" using sc by (rule string_chars_length)
  obtain colon r1 where k1: "skip_ws r0 = colon # r1"
    using a k0 q sc by (cases "skip_ws r0") auto
  have c: "colon = 58" using a k0 q sc k1 by (auto split: if_splits)
  have l2: "length r1 < length r0" using k1 by (rule skip_ws_Cons_length)
  have "parse_value n r1 \<noteq> OutOfFuel" using f l0 l1 l2 by (intro V) simp
  moreover have "parse_value n r1 \<noteq> SyntaxError" using a k0 q sc k1 c by auto
  ultimately obtain x r2 where p: "parse_value n r1 = Ok x r2"
    by (cases "parse_value n r1") auto
  have l3: "length r2 < length r1" using p by (rule parse_value_consumes)
  obtain d ds where k2: "skip_ws r2 = d # ds"
    using a k0 q sc k1 c p by (cases "skip_ws r2") auto
  have l4: "length ds < length r2" using k2 by (rule skip_ws_Cons_length)
  have "parse_members n (set_member key x acc) ds \<noteq> OutOfFuel"
    using f l0 l1 l2 l3 l4 by (intro M) simp
  then show False using a k0 q sc k1 c p k2 by (auto split: if_splits)
qed

lemma parse_fuel:
  "(\<forall>s. 2 * length s + 1 \<le> n \<longrightarrow> parse_value n s \<noteq> OutOfFuel)
   \<and> (\<forall>acc s. 2 * length s + 2 \<le> n \<longrightarrow> parse_elements n acc s \<noteq> OutOfFuel)
   \<and> (\<forall>acc s. 2 * length s + 2 \<le> n \<longrightarrow> parse_members n acc s \<noteq> OutOfFuel)"
proof (induction n)
  case 0
  show ?case by simp
next
  case (Suc n)
  have V: "\<And>s. 2 * length s + 1 \<le> n \<Longrightarrow> parse_value n s \<noteq> OutOfFuel"
    using Suc by blast
  have E: "\<And>acc s. 2 * length s + 2 \<le> n \<Longrightarrow> parse_elements n acc s \<noteq> OutOfFuel"
    using Suc by blast
  have M: "\<And>acc s. 2 * length s + 2 \<le> n \<Longrightarrow> parse_members n acc s \<noteq> OutOfFuel"
    using Suc by blast
  have a: "parse_value (Suc n) s \<noteq> OutOfFuel" if "2 * length s + 1 \<le> Suc n" for s
    using M E that by (rule parse_value_fuel_step)
  have b: "parse_elements (Suc n) acc s \<noteq> OutOfFuel" if "2 * length s + 2 \<le> Suc n" for acc s
    using V E that by (rule parse_elements_fuel_step)
  have c: "parse_members (Suc n) acc s \<noteq> OutOfFuel" if "2 * length s + 2 \<le> Suc n" for acc s
    using V M that by (rule parse_members_fuel_step)
  show ?case using a b c by blast
qed

lemma JSON_parse_fuel: "parse_value (2 * length s + 1) s \<noteq> OutOfFuel"
  using parse_fuel[of "2 * length s + 1"] by simp

text \<open>
  Claim C1. The markers of a markdown code fence are removed before the text is parsed:
  for a text made of the opening fence with \<open>json\<close>, white space, a body that neither
  starts nor ends with white space, white space and the closing fence, what is parsed is
  the body; and \<open>extractGradesFromImage\<close> returns what \<open>JSON.parse\<close> makes of the text
  without its markers. For the fenced array of the one record
  \<open>{"name":"A","note1":1,"note2":2,"note3":3}\<close> it returns an array of exactly that
  record.
\<close>

theorem fenced_grades_one_record:
  "(list_all is_space ws1 \<and> list_all is_space ws2
      \<and> (body = [] \<or> (\<not> is_space (hd body) \<and> \<not> is_space (last body)))
    \<longrightarrow> replace_trailing_fence (replace_leading_fence (fence @ js ''json'' @ ws1 @ body @ ws2 @ fence)) = body)
   \<and> (getAIClient w = (Some ai, w1) \<and> fileToGenerativePart f = Inr b
        \<and> provider w ai (image_request f b grades_prompt (Some grades_config)) = Resolved (Some raw)
        \<and> raw \<noteq> []
    \<longrightarrow> fst (extractGradesFromImage f w) =
          (case JSON_parse (replace_trailing_fence (replace_leading_fence raw)) of
             Inr v \<Rightarrow> Inr v
           | Inl e \<Rightarrow> Inl (Error (js ''Failed to extract grades from image.''))))
   \<and> (getAIClient w = (Some ai, w1) \<and> fileToGenerativePart f = Inr b
        \<and> provider w ai (image_request f b grades_prompt (Some grades_config))
            = Resolved (Some (fence @ js ''json\<newline>[{\"name\":\"A\",\"note1\":1,\"note2\":2,\"note3\":3}]\<newline>'' @ fence))
    \<longrightarrow> fst (extractGradesFromImage f w) =
          Inr (JArray [JObject [(js ''name'', JString (js ''A'')), (js ''note1'', JNumber (Finite 1)),
                                (js ''note2'', JNumber (Finite 2)), (js ''note3'', JNumber (Finite 3))]]))"
proof (intro conjI impI)
  assume "list_all is_space ws1 \<and> list_all is_space ws2
      \<and> (body = [] \<or> (\<not> is_space (hd body) \<and> \<not> is_space (last body)))"
  then show "replace_trailing_fence (replace_leading_fence (fence @ js ''json'' @ ws1 @ body @ ws2 @ fence)) = body"
    by (intro fences_stripped) auto
next
  assume a: "getAIClient w = (Some ai, w1) \<and> fileToGenerativePart f = Inr b
        \<and> provider w ai (image_request f b grades_prompt (Some grades_config)) = Resolved (Some raw)
        \<and> raw \<noteq> []"
  then have "fst (extractGradesFromImage f w) =
           (if or_empty (Some raw) = [] then Inr (JArray [])
            else (case JSON_parse (replace_trailing_fence (replace_leading_fence (or_empty (Some raw)))) of
                    Inr v \<Rightarrow> Inr v
                  | Inl e \<Rightarrow> Inl (Error (js ''Failed to extract grades from image.''))))"
    by (intro extract_grades_resolved(1)) auto
  then show "fst (extractGradesFromImage f w) =
          (case JSON_parse (replace_trailing_fence (replace_leading_fence raw)) of
             Inr v \<Rightarrow> Inr v
           | Inl e \<Rightarrow> Inl (Error (js ''Failed to extract grades from image.'')))"
    using a by (simp add: or_empty_def)
next
  let ?raw = "fence @ js ''json\<newline>[{\"name\":\"A\",\"note1\":1,\"note2\":2,\"note3\":3}]\<newline>'' @ fence"
  assume a: "getAIClient w = (Some ai, w1) \<and> fileToGenerativePart f = Inr b
        \<and> provider w ai (image_request f b grades_prompt (Some grades_config)) = Resolved (Some ?raw)"
  then have "fst (extractGradesFromImage f w) =
           (if or_empty (Some ?raw) = [] then Inr (JArray [])
            else (case JSON_parse (replace_trailing_fence (replace_leading_fence (or_empty (Some ?raw)))) of
                    Inr v \<Rightarrow> Inr v
                  | Inl e \<Rightarrow> Inl (Error (js ''Failed to extract grades from image.''))))"
    by (intro extract_grades_resolved(1)) auto
  moreover have "or_empty (Some ?raw) = ?raw" by (simp add: or_empty_def)
  moreover have "?raw \<noteq> []" by (simp add: fence_def)
  ultimately show "fst (extractGradesFromImage f w) =
          Inr (JArray [JObject [(js ''name'', JString (js ''A'')), (js ''note1'', JNumber (Finite 1)),
                                (js ''note2'', JNumber (Finite 2)), (js ''note3'', JNumber (Finite 3))]])"
    by (simp only: sample_clean sample_parse if_False sum.case)
qed

theorem fenced_grades_one_record_witness:
  "fst (extractGradesFromImage test_file
          (test_world test_key
             (Resolved (Some (fence @ js ''json\<newline>[{\"name\":\"A\",\"note1\":1,\"note2\":2,\"note3\":3}]\<newline>'' @ fence)))))
   = Inr (JArray [JObject [(js ''name'', JString (js ''A'')), (js ''note1'', JNumber (Finite 1)),
                           (js ''note2'', JNumber (Finite 2)), (js ''note3'', JNumber (Finite 3))]])"
proof -
  let ?raw = "fence @ js ''json\<newline>[{\"name\":\"A\",\"note1\":1,\"note2\":2,\"note3\":3}]\<newline>'' @ fence"
  let ?w = "test_world test_key (Resolved (Some ?raw))"
  have h: "getAIClient ?w = (Some (GoogleGenAI (js ''key'')), ?w) \<and> fileToGenerativePart test_file = Inr (Some (js ''AAAA''))
        \<and> provider ?w (GoogleGenAI (js ''key'')) (image_request test_file (Some (js ''AAAA'')) grades_prompt (Some grades_config))
            = Resolved (Some ?raw)"
    using test_client test_file_part test_provider by blast
  from fenced_grades_one_record[of "[]" "[]" "[]" ?w "GoogleGenAI (js ''key'')" ?w test_file "Some (js ''AAAA'')" "[]"]
  have "getAIClient ?w = (Some (GoogleGenAI (js ''key'')), ?w) \<and> fileToGenerativePart test_file = Inr (Some (js ''AAAA''))
        \<and> provider ?w (GoogleGenAI (js ''key'')) (image_request test_file (Some (js ''AAAA'')) grades_prompt (Some grades_config))
            = Resolved (Some ?raw)
    \<longrightarrow> fst (extractGradesFromImage test_file ?w) =
          Inr (JArray [JObject [(js ''name'', JString (js ''A'')), (js ''note1'', JNumber (Finite 1)),
                                (js ''note2'', JNumber (Finite 2)), (js ''note3'', JNumber (Finite 3))]])"
    by blast
  then show ?thesis using h by blast
qed

subsection \<open>Powers of two\<close>

lemma pow2_powi: "pow2 e = 2 powi e"
  by (simp add: pow2_def power_int_def inverse_eq_divide power_one_over)

lemma pow2_pos [simp]: "0 < pow2 e"
  by (simp add: pow2_powi)

lemma pow2_nonzero [simp]: "pow2 e \<noteq> 0"
  by (metis pow2_pos less_irrefl)

lemma pow2_nonneg [simp]: "0 \<le> pow2 e"
  by (metis pow2_pos less_imp_le)

lemma abs_pow2 [simp]: "\<bar>pow2 e\<bar> = pow2 e"
  by (rule abs_of_nonneg) simp

lemma pow2_add: "pow2 (a + b) = pow2 a * pow2 b"
  by (simp add: pow2_powi power_int_add)




lemma pow2_nat: "pow2 (int n) = 2 ^ n"
  by (simp add: pow2_def)


lemma pow2_diff_one: "pow2 (e - 1) = pow2 e / 2"
  using pow2_add[of "e - 1" 1] by (simp add: pow2_def)

subsection \<open>Rounding to an integer\<close>


lemma round_half_even_of_int [simp]: "round_half_even (of_int k) = k"
  by (simp add: round_half_even_def)

subsection \<open>The binary exponent\<close>




subsection \<open>Rounding to binary64\<close>





subsection \<open>Decimal digits\<close>









subsection \<open>The average of integer notes\<close>


subsection \<open>calculateAverage\<close>










end
